theory Spec2Isabelle
  imports Complex_Main
begin

section \<open>The Amazon service of lutris (lutris/services/amazon.py)\<close>

text \<open>
  A shallow embedding of \<^verbatim>\<open>AmazonService\<close>: the token lifecycle
  (\<^verbatim>\<open>is_token_expired\<close>, \<^verbatim>\<open>refresh_token\<close>), the login callback with the device
  registration, the paginated library fetch with its cache file, the load orchestration
  and the PKCE challenge.

  Every Python value that the code handles here comes from \<^verbatim>\<open>json.load\<close> or from a
  parsed response, so Python values are modelled by one datatype of JSON-shaped values;
  \<^verbatim>\<open>None\<close> is \<open>JNull\<close>. A \<^verbatim>\<open>dict\<close> is an association list in insertion order, read at
  the first entry of a key. A Python \<^verbatim>\<open>float\<close> is modelled by the rational number it
  denotes: rounding of float addition, NaN and the infinities are outside the model.
  Strings are lists of 8-bit characters. Calls of \<^verbatim>\<open>logger\<close> are outside the model.
\<close>

subsection \<open>Python values and exceptions\<close>

datatype json =
    JNull
  | JBool bool
  | JInt int
  | JFloat rat
  | JString string
  | JArray "json list"
  | JObject "(string \<times> json) list"

text \<open>The exceptions that the modelled code can raise. \<open>ExternalError\<close> stands for
  whatever a collaborator outside this file (slugify, the game database) raises. The
  \<^verbatim>\<open>HTTPError\<close> of the transport is caught wherever it can occur, so it is an
  outcome of a request (below), not an exception of the model.\<close>

datatype error =
    KeyError
  | TypeError
  | ValueError
  | AttributeError
  | FileNotFoundError
  | JSONDecodeError
  | ExternalError

text \<open>Truth value of a Python object, as \<^verbatim>\<open>not x\<close> and \<^verbatim>\<open>if x\<close> test it.\<close>

fun truthy :: "json \<Rightarrow> bool" where
  "truthy JNull = False"
| "truthy (JBool b) = b"
| "truthy (JInt i) = (i \<noteq> 0)"
| "truthy (JFloat r) = (r \<noteq> 0)"
| "truthy (JString s) = (s \<noteq> [])"
| "truthy (JArray xs) = (xs \<noteq> [])"
| "truthy (JObject kvs) = (kvs \<noteq> [])"

text \<open>\<^verbatim>\<open>obj[key]\<close> with a string key: only a dict can be subscripted by a string.\<close>

fun py_getitem :: "json \<Rightarrow> string \<Rightarrow> error + json" where
  "py_getitem (JObject kvs) k =
     (case map_of kvs k of None \<Rightarrow> Inl KeyError | Some v \<Rightarrow> Inr v)"
| "py_getitem _ k = Inl TypeError"

text \<open>\<^verbatim>\<open>obj[k1][k2]...\<close>, evaluated left to right.\<close>

fun py_path :: "json \<Rightarrow> string list \<Rightarrow> error + json" where
  "py_path v [] = Inr v"
| "py_path v (k # ks) =
     (case py_getitem v k of Inl e \<Rightarrow> Inl e | Inr v' \<Rightarrow> py_path v' ks)"

text \<open>\<^verbatim>\<open>obj[key] = value\<close>: an existing key keeps its position, a new key is appended.\<close>

fun dict_set :: "(string \<times> json) list \<Rightarrow> string \<Rightarrow> json \<Rightarrow> (string \<times> json) list" where
  "dict_set [] k v = [(k, v)]"
| "dict_set ((k', v') # kvs) k v =
     (if k' = k then (k, v) # kvs else (k', v') # dict_set kvs k v)"

fun py_setitem :: "json \<Rightarrow> string \<Rightarrow> json \<Rightarrow> error + json" where
  "py_setitem (JObject kvs) k v = Inr (JObject (dict_set kvs k v))"
| "py_setitem _ k v = Inl TypeError"

text \<open>\<^verbatim>\<open>obj[k1]...[kn] = value\<close>: the inner dicts are looked up, the last one is updated
  in place, so the outer document changes with it.\<close>

fun py_setpath :: "json \<Rightarrow> string list \<Rightarrow> json \<Rightarrow> error + json" where
  "py_setpath d [] v = Inr v"
| "py_setpath d [k] v = py_setitem d k v"
| "py_setpath d (k # ks) v =
     (case py_getitem d k of
        Inl e \<Rightarrow> Inl e
      | Inr inner \<Rightarrow>
          (case py_setpath inner ks v of
             Inl e \<Rightarrow> Inl e
           | Inr inner' \<Rightarrow> py_setitem d k inner'))"

text \<open>Iteration over a Python object (\<^verbatim>\<open>for x in obj\<close>, \<^verbatim>\<open>list.extend(obj)\<close>): a list
  gives its elements, a dict its keys, a string its characters.\<close>

fun py_iter :: "json \<Rightarrow> error + json list" where
  "py_iter (JArray xs) = Inr xs"
| "py_iter (JObject kvs) = Inr (map (\<lambda>kv. JString (fst kv)) kvs)"
| "py_iter (JString s) = Inr (map (\<lambda>c. JString [c]) s)"
| "py_iter _ = Inl TypeError"

subsection \<open>\<^verbatim>\<open>int(x)\<close>\<close>

definition is_space :: "char \<Rightarrow> bool" where
  "is_space c =
     (let n = (of_char c :: nat)
      in (9 \<le> n \<and> n \<le> 13) \<or> (28 \<le> n \<and> n \<le> 32) \<or> n = 133 \<or> n = 160)"

definition strip :: "string \<Rightarrow> string" where
  "strip s = rev (dropWhile is_space (rev (dropWhile is_space s)))"

definition is_digit :: "char \<Rightarrow> bool" where
  "is_digit c = (let n = (of_char c :: nat) in 48 \<le> n \<and> n \<le> 57)"

definition digit_val :: "char \<Rightarrow> nat" where
  "digit_val c = of_char c - 48"

text \<open>Decimal digits with single underscores between digits, as \<^verbatim>\<open>int\<close> accepts them.
  The flag says whether the previous character was a digit.\<close>

fun parse_digits :: "nat \<Rightarrow> bool \<Rightarrow> string \<Rightarrow> nat option" where
  "parse_digits acc prev [] = (if prev then Some acc else None)"
| "parse_digits acc prev (c # cs) =
     (if is_digit c then parse_digits (10 * acc + digit_val c) True cs
      else if c = CHR ''_'' \<and> prev then parse_digits acc False cs
      else None)"

definition int_of_string :: "string \<Rightarrow> error + int" where
  "int_of_string s =
     (case strip s of
        [] \<Rightarrow> Inl ValueError
      | c # cs \<Rightarrow>
          if c = CHR ''-'' then
            (case parse_digits 0 False cs of
               None \<Rightarrow> Inl ValueError | Some n \<Rightarrow> Inr (- int n))
          else if c = CHR ''+'' then
            (case parse_digits 0 False cs of
               None \<Rightarrow> Inl ValueError | Some n \<Rightarrow> Inr (int n))
          else
            (case parse_digits 0 False (c # cs) of
               None \<Rightarrow> Inl ValueError | Some n \<Rightarrow> Inr (int n)))"

fun py_int :: "json \<Rightarrow> error + int" where
  "py_int (JBool b) = Inr (if b then 1 else 0)"
| "py_int (JInt i) = Inr i"
| "py_int (JFloat r) = Inr (if 0 \<le> r then \<lfloor>r\<rfloor> else \<lceil>r\<rceil>)"
| "py_int (JString s) = int_of_string s"
| "py_int _ = Inl TypeError"

text \<open>\<^verbatim>\<open>x + n\<close> for an int \<open>n\<close>: defined for numbers (\<^verbatim>\<open>bool\<close> is a subclass of
  \<^verbatim>\<open>int\<close>), a \<^verbatim>\<open>TypeError\<close> for everything else.\<close>

fun py_add_int :: "json \<Rightarrow> int \<Rightarrow> error + rat" where
  "py_add_int (JBool b) n = Inr (of_int ((if b then 1 else 0) + n))"
| "py_add_int (JInt i) n = Inr (of_int (i + n))"
| "py_add_int (JFloat r) n = Inr (r + of_int n)"
| "py_add_int _ n = Inl TypeError"

subsection \<open>The environment: files, clock, network, instance attributes\<close>

text \<open>A JSON file on disk: absent, present with text that \<^verbatim>\<open>json.load\<close> rejects, or
  present with a document. \<^verbatim>\<open>json.dumps\<close> followed by \<^verbatim>\<open>json.load\<close> is taken to give the
  value back, and writing a file is taken to succeed.\<close>

datatype json_file = NoFile | Unparsable | Parsed json

text \<open>\<^verbatim>\<open>with open(path, "r") as f: json.load(f)\<close>\<close>

fun json_load :: "json_file \<Rightarrow> error + json" where
  "json_load NoFile = Inl FileNotFoundError"
| "json_load Unparsable = Inl JSONDecodeError"
| "json_load (Parsed d) = Inr d"

text \<open>Modelled from the spec: \<^verbatim>\<open>lutris.util.http.Request\<close> is not part of this file.
  The transport collaborator "issues GET/POST requests with supplied headers and body,
  exposes parsed JSON on success, and signals a distinguished transport-error condition
  on failure". A request is its URL, its headers and the JSON value whose dump is
  posted; a response is the transport error or the parsed JSON.\<close>

datatype request = Post string "(string \<times> json) list" json

datatype response = TransportError | Body json

text \<open>A game of the library, as \<^verbatim>\<open>AmazonGame.new_from_amazon_game\<close> fills it.\<close>

record amazon_game =
  appid :: string
  slug :: string
  name :: json
  details :: json

text \<open>
  The state that the service reads and writes:
  \<^item> \<open>user_file\<close> is \<^verbatim>\<open>user_path\<close> (\<^verbatim>\<open>.amazon.user\<close>), \<open>cache_file\<close> is \<^verbatim>\<open>cache_path\<close>
    (\<^verbatim>\<open>amazon-library.json\<close>);
  \<^item> \<open>clock\<close> and \<open>ticks\<close> are \<^verbatim>\<open>time.time()\<close>: the \<open>k\<close>-th call returns \<open>clock k\<close>;
  \<^item> \<open>net\<close> and \<open>sent\<close> are the remote side: \<open>sent\<close> logs every request issued, and the
    request issued after \<open>k\<close> earlier ones is answered by \<open>net k\<close>;
  \<^item> \<open>is_loading\<close>, \<open>verifier\<close>, \<open>serial\<close>, \<open>client_id\<close> are the attributes of the
    instance (\<open>None\<close> is Python's \<^verbatim>\<open>None\<close>);
  \<^item> \<open>events\<close> logs the signals emitted, \<open>saved_games\<close> is the game database that
    \<^verbatim>\<open>game.save()\<close> writes.
\<close>

record world =
  user_file :: json_file
  cache_file :: json_file
  clock :: "nat \<Rightarrow> rat"
  ticks :: nat
  net :: "nat \<Rightarrow> request \<Rightarrow> response"
  sent :: "request list"
  is_loading :: bool
  verifier :: "string option"
  serial :: "string option"
  client_id :: "string option"
  events :: "string list"
  saved_games :: "amazon_game list"

text \<open>\<^verbatim>\<open>time.time()\<close>\<close>

definition time_time :: "world \<Rightarrow> rat \<times> world" where
  "time_time w = (clock w (ticks w), w\<lparr>ticks := Suc (ticks w)\<rparr>)"

text \<open>\<^verbatim>\<open>request.post(...)\<close> followed by \<^verbatim>\<open>request.json\<close>: the request is logged and
  answered.\<close>

definition http_post :: "request \<Rightarrow> world \<Rightarrow> response \<times> world" where
  "http_post r w = (net w (length (sent w)) r, w\<lparr>sent := sent w @ [r]\<rparr>)"

subsection \<open>The credential store\<close>

definition save_user_data :: "json \<Rightarrow> world \<Rightarrow> world" where
  "save_user_data user_data w = w\<lparr>user_file := Parsed user_data\<rparr>"

definition load_user_data :: "world \<Rightarrow> error + json" where
  "load_user_data w = json_load (user_file w)"

subsection \<open>The token lifecycle\<close>

text \<open>\<^verbatim>\<open>is_token_expired\<close>: both fields are subscripted before the test; the clock is
  read only when both are truthy, and before \<^verbatim>\<open>int(expires_in)\<close> is evaluated.\<close>

definition is_token_expired :: "world \<Rightarrow> (error + bool) \<times> world" where
  "is_token_expired w =
     (case load_user_data w of
        Inl e \<Rightarrow> (Inl e, w)
      | Inr user_data \<Rightarrow>
          (case py_getitem user_data ''token_obtain_time'' of
             Inl e \<Rightarrow> (Inl e, w)
           | Inr token_obtain_time \<Rightarrow>
               (case py_path user_data [''tokens'', ''bearer'', ''expires_in''] of
                  Inl e \<Rightarrow> (Inl e, w)
                | Inr expires_in \<Rightarrow>
                    if \<not> truthy token_obtain_time \<or> \<not> truthy expires_in then (Inr False, w)
                    else
                      (case time_time w of
                         (now, w1) \<Rightarrow>
                           (case py_int expires_in of
                              Inl e \<Rightarrow> (Inl e, w1)
                            | Inr n \<Rightarrow>
                                (case py_add_int token_obtain_time n of
                                   Inl e \<Rightarrow> (Inl e, w1)
                                 | Inr deadline \<Rightarrow> (Inr (deadline < now), w1)))))))"

text \<open>
  The collaborators that the code calls and that are neither in this file nor decided by
  it: \<^verbatim>\<open>hashlib.sha256\<close> (from bytes to the digest bytes), \<^verbatim>\<open>str\<close> on a parsed value,
  \<^verbatim>\<open>urllib.parse.unquote\<close>, \<^verbatim>\<open>lutris.util.strings.slugify\<close> and \<^verbatim>\<open>ServiceGame.save\<close>
  on the game database. They are parameters of the model.
\<close>

record externals =
  sha256 :: "string \<Rightarrow> string"
  py_str :: "json \<Rightarrow> string"
  unquote :: "string \<Rightarrow> string"
  slugify :: "json \<Rightarrow> error + string"
  game_save :: "amazon_game \<Rightarrow> amazon_game list \<Rightarrow> error + amazon_game list"

definition amazon_api :: string where
  "amazon_api = ''https://api.amazon.com''"

definition amazon_sds :: string where
  "amazon_sds = ''https://sds.amazon.com''"

definition refresh_request :: "json \<Rightarrow> request" where
  "refresh_request source_token =
     Post (amazon_api @ ''/auth/token'')
       [(''Accept'', JString ''application/json''),
        (''Accept-Language'', JString ''en_US''),
        (''User-Agent'', JString ''AGSLauncher/1.0.0''),
        (''Content-Type'', JString ''application/json''),
        (''charset'', JString ''utf-8'')]
       (JObject
         [(''source_token'', source_token),
          (''source_token_type'', JString ''refresh_token''),
          (''requested_token_type'', JString ''access_token''),
          (''app_name'', JString ''AGSLauncher for Windows''),
          (''app_version'', JString ''1.0.0'')])"

text \<open>\<^verbatim>\<open>refresh_token\<close>: the right-hand side of each assignment is evaluated before its
  target is subscripted; the document is written back only after the three assignments.\<close>

definition refresh_token :: "world \<Rightarrow> (error + unit) \<times> world" where
  "refresh_token w =
     (case load_user_data w of
        Inl e \<Rightarrow> (Inl e, w)
      | Inr user_data \<Rightarrow>
          (case py_path user_data [''tokens'', ''bearer'', ''refresh_token''] of
             Inl e \<Rightarrow> (Inl e, w)
           | Inr source_token \<Rightarrow>
               (case http_post (refresh_request source_token) w of
                  (TransportError, w1) \<Rightarrow> (Inr (), w1)
                | (Body res_json, w1) \<Rightarrow>
                    (case py_getitem res_json ''access_token'' of
                       Inl e \<Rightarrow> (Inl e, w1)
                     | Inr access_token \<Rightarrow>
                    (case py_setpath user_data [''tokens'', ''bearer'', ''access_token''] access_token of
                       Inl e \<Rightarrow> (Inl e, w1)
                     | Inr user_data1 \<Rightarrow>
                    (case py_getitem res_json ''expires_in'' of
                       Inl e \<Rightarrow> (Inl e, w1)
                     | Inr expires_in \<Rightarrow>
                    (case py_setpath user_data1 [''tokens'', ''bearer'', ''expires_in''] expires_in of
                       Inl e \<Rightarrow> (Inl e, w1)
                     | Inr user_data2 \<Rightarrow>
                    (case time_time w1 of
                       (now, w2) \<Rightarrow>
                    (case py_setitem user_data2 ''token_obtain_time'' (JFloat now) of
                       Inl e \<Rightarrow> (Inl e, w2)
                     | Inr user_data3 \<Rightarrow> (Inr (), save_user_data user_data3 w2))))))))))"

subsection \<open>The login callback and the device registration\<close>




text \<open>\<^verbatim>\<open>s.find(sub)\<close>: the lowest index at which \<open>sub\<close> starts, \<open>-1\<close> when there is none.\<close>

fun find_at :: "nat \<Rightarrow> string \<Rightarrow> string \<Rightarrow> int" where
  "find_at i sub [] = (if sub = [] then int i else - 1)"
| "find_at i sub (c # cs) =
     (if take (length sub) (c # cs) = sub then int i else find_at (Suc i) sub cs)"

definition py_find :: "string \<Rightarrow> string \<Rightarrow> int" where
  "py_find s sub = find_at 0 sub s"










subsection \<open>The entitlement synchronisation\<close>

text \<open>Modelled from the spec: \<^verbatim>\<open>lutris.util.system.path_exists\<close> is not part of this
  file. "If a whole-library cache file exists": the file is there, whatever it holds.\<close>

definition path_exists :: "json_file \<Rightarrow> bool" where
  "path_exists f = (f \<noteq> NoFile)"

definition hex_digit :: "nat \<Rightarrow> char" where
  "hex_digit n = ''0123456789abcdef'' ! (n mod 16)"

text \<open>\<^verbatim>\<open>.hexdigest()\<close> of a digest: two lower-case hexadecimal digits for each byte.\<close>

definition hexdigest :: "string \<Rightarrow> string" where
  "hexdigest bs =
     concat (map (\<lambda>b. [hex_digit (of_char b div 16), hex_digit (of_char b mod 16)]) bs)"

text \<open>\<^verbatim>\<open>.upper()\<close> on ASCII text.\<close>

definition py_upper :: "string \<Rightarrow> string" where
  "py_upper s =
     map (\<lambda>c. let n = (of_char c :: nat) in if 97 \<le> n \<and> n \<le> 122 then char_of (n - 32) else c) s"

text \<open>The dict that \<^verbatim>\<open>get_sync_request_data\<close> builds for a serial that is a string.\<close>

definition sync_request_data :: "externals \<Rightarrow> string \<Rightarrow> json \<Rightarrow> json" where
  "sync_request_data X s nextToken =
     JObject
       [(''Operation'', JString ''GetEntitlementsV2''),
        (''clientId'', JString ''Sonic''),
        (''syncPoint'', JNull),
        (''nextToken'', nextToken),
        (''maxResults'', JInt 50),
        (''productIdFilter'', JNull),
        (''keyId'', JString ''d5dc8b8b-86c8-4fc4-ae93-18c0def5314d''),
        (''hardwareHash'', JString (py_upper (hexdigest (sha256 X s))))]"

text \<open>\<^verbatim>\<open>get_sync_request_data\<close>: \<^verbatim>\<open>serial.encode()\<close> exists on a string only.\<close>

definition get_sync_request_data :: "externals \<Rightarrow> json \<Rightarrow> json \<Rightarrow> error + json" where
  "get_sync_request_data X device_serial nextToken =
     (case device_serial of
        JString s \<Rightarrow> Inr (sync_request_data X s nextToken)
      | _ \<Rightarrow> Inl AttributeError)"

definition sds_request :: "string \<Rightarrow> json \<Rightarrow> json \<Rightarrow> request" where
  "sds_request target token body =
     Post (amazon_sds @ ''/amazon/'')
       [(''X-Amz-Target'', JString target),
        (''x-amzn-token'', token),
        (''User-Agent'', JString ''com.amazon.agslauncher.win/2.1.7437.6''),
        (''UserAgent'', JString ''com.amazon.agslauncher.win/2.1.7437.6''),
        (''Content-Type'', JString ''application/json''),
        (''Content-Encoding'', JString ''amz-1.0'')]
       body"

text \<open>\<^verbatim>\<open>request_sds\<close>: the parsed response, or \<^verbatim>\<open>None\<close> after a transport error.\<close>

definition request_sds :: "string \<Rightarrow> json \<Rightarrow> json \<Rightarrow> world \<Rightarrow> json \<times> world" where
  "request_sds target token body w =
     (case http_post (sds_request target token body) w of
        (TransportError, w1) \<Rightarrow> (JNull, w1)
      | (Body res_json, w1) \<Rightarrow> (res_json, w1))"

definition entitlements_target :: string where
  "entitlements_target =
     ''com.amazonaws.gearbox.softwaredistribution.service.model.SoftwareDistributionService.GetEntitlementsV2''"

text \<open>\<^verbatim>\<open>key in obj\<close> for a string key.\<close>

fun py_contains :: "json \<Rightarrow> string \<Rightarrow> error + bool" where
  "py_contains (JObject kvs) k = Inr (k \<in> set (map fst kvs))"
| "py_contains (JArray xs) k = Inr (JString k \<in> set xs)"
| "py_contains (JString s) k = Inr (0 \<le> py_find s k)"
| "py_contains _ k = Inl TypeError"

text \<open>How the \<^verbatim>\<open>while True\<close> loop of \<^verbatim>\<open>get_library\<close> is left: by \<^verbatim>\<open>return\<close> with no
  value, or by \<^verbatim>\<open>break\<close> with the games accumulated.\<close>

datatype fetched = NoData | Games "json list"

text \<open>The loop of \<^verbatim>\<open>get_library\<close>, with its variables \<open>games\<close> and \<open>nextToken\<close>. The
  loop runs for as long as the responses carry a \<^verbatim>\<open>nextToken\<close>, so it need not
  return: the function is partial, and \<open>None\<close> is the run that never ends.\<close>

partial_function (option) fetch_entitlements ::
  "externals \<Rightarrow> json \<Rightarrow> json \<Rightarrow> json list \<Rightarrow> json \<Rightarrow> world \<Rightarrow> ((error + fetched) \<times> world) option"
where
  "fetch_entitlements X access_token device_serial games nextToken w =
     (case get_sync_request_data X device_serial nextToken of
        Inl e \<Rightarrow> Some (Inl e, w)
      | Inr request_data \<Rightarrow>
          (case request_sds entitlements_target access_token request_data w of
             (json_data, w1) \<Rightarrow>
               if \<not> truthy json_data then Some (Inr NoData, w1)
               else
                 (case py_getitem json_data ''entitlements'' of
                    Inl e \<Rightarrow> Some (Inl e, w1)
                  | Inr entitlements \<Rightarrow>
                      (case py_iter entitlements of
                         Inl e \<Rightarrow> Some (Inl e, w1)
                       | Inr page_items \<Rightarrow>
                           (case py_contains json_data ''nextToken'' of
                              Inl e \<Rightarrow> Some (Inl e, w1)
                            | Inr has_next \<Rightarrow>
                                if \<not> has_next then Some (Inr (Games (games @ page_items)), w1)
                                else
                                  (case py_getitem json_data ''nextToken'' of
                                     Inl e \<Rightarrow> Some (Inl e, w1)
                                   | Inr nextToken' \<Rightarrow>
                                       fetch_entitlements X access_token device_serial
                                         (games @ page_items) nextToken' w1))))))"

text \<open>Lines 339 to 345 of \<^verbatim>\<open>get_library\<close>: refresh the token when it has expired, then
  read the access token and the device serial from the stored document.\<close>

definition sync_credentials :: "world \<Rightarrow> (error + json \<times> json) \<times> world" where
  "sync_credentials w =
     (case is_token_expired w of
        (Inl e, w1) \<Rightarrow> (Inl e, w1)
      | (Inr expired, w1) \<Rightarrow>
          (case (if expired then refresh_token w1 else (Inr (), w1)) of
             (Inl e, w2) \<Rightarrow> (Inl e, w2)
           | (Inr _, w2) \<Rightarrow>
               (case load_user_data w2 of
                  Inl e \<Rightarrow> (Inl e, w2)
                | Inr user_data \<Rightarrow>
                    (case py_path user_data [''tokens'', ''bearer'', ''access_token''] of
                       Inl e \<Rightarrow> (Inl e, w2)
                     | Inr access_token \<Rightarrow>
                         (case py_path user_data
                                 [''extensions'', ''device_info'', ''device_serial_number''] of
                            Inl e \<Rightarrow> (Inl e, w2)
                          | Inr device_serial \<Rightarrow> (Inr (access_token, device_serial), w2))))))"

text \<open>\<^verbatim>\<open>get_library\<close>: the cached document when the cache file exists; otherwise the
  fetch, whose games are written to the cache file and returned. \<open>JNull\<close> is the
  \<^verbatim>\<open>None\<close> of the bare \<^verbatim>\<open>return\<close>.\<close>

definition get_library :: "externals \<Rightarrow> world \<Rightarrow> ((error + json) \<times> world) option" where
  "get_library X w =
     (if path_exists (cache_file w) then Some (json_load (cache_file w), w)
      else
        (case sync_credentials w of
           (Inl e, w1) \<Rightarrow> Some (Inl e, w1)
         | (Inr (access_token, device_serial), w1) \<Rightarrow>
             (case fetch_entitlements X access_token device_serial [] JNull w1 of
                None \<Rightarrow> None
              | Some (Inl e, w2) \<Rightarrow> Some (Inl e, w2)
              | Some (Inr NoData, w2) \<Rightarrow> Some (Inr JNull, w2)
              | Some (Inr (Games games), w2) \<Rightarrow>
                  Some (Inr (JArray games), w2\<lparr>cache_file := Parsed (JArray games)\<rparr>))))"

subsection \<open>Loading the library\<close>

text \<open>Modelled from the spec: \<^verbatim>\<open>OnlineService.is_authenticated\<close> is in
  \<^verbatim>\<open>lutris/services/base.py\<close>, not in this file. "Local credentials exist": every file of
  \<^verbatim>\<open>credential_files\<close>, which this file defines as \<^verbatim>\<open>[self.user_path]\<close>, exists.\<close>

definition is_authenticated :: "world \<Rightarrow> bool" where
  "is_authenticated w = list_all path_exists [user_file w]"

text \<open>\<^verbatim>\<open>AmazonGame.new_from_amazon_game\<close>; \<open>details\<close> holds the value whose dump is
  stored.\<close>

definition new_from_amazon_game :: "externals \<Rightarrow> json \<Rightarrow> error + amazon_game" where
  "new_from_amazon_game X game =
     (case py_getitem game ''id'' of
        Inl e \<Rightarrow> Inl e
      | Inr ident \<Rightarrow>
          (case py_path game [''product'', ''title''] of
             Inl e \<Rightarrow> Inl e
           | Inr title \<Rightarrow>
               (case slugify X title of
                  Inl e \<Rightarrow> Inl e
                | Inr sl \<Rightarrow>
                    Inr \<lparr>appid = py_str X ident, slug = sl, name = title, details = game\<rparr>)))"

text \<open>The list comprehension of \<^verbatim>\<open>load\<close>: the first game that cannot be mapped raises.\<close>

fun map_games :: "externals \<Rightarrow> json list \<Rightarrow> error + amazon_game list" where
  "map_games X [] = Inr []"
| "map_games X (g # gs) =
     (case new_from_amazon_game X g of
        Inl e \<Rightarrow> Inl e
      | Inr game \<Rightarrow>
          (case map_games X gs of Inl e \<Rightarrow> Inl e | Inr games \<Rightarrow> Inr (game # games)))"

text \<open>\<^verbatim>\<open>for game in games: game.save()\<close>: the games saved before a failure stay saved.\<close>

fun save_games :: "externals \<Rightarrow> amazon_game list \<Rightarrow> world \<Rightarrow> (error + unit) \<times> world" where
  "save_games X [] w = (Inr (), w)"
| "save_games X (g # gs) w =
     (case game_save X g (saved_games w) of
        Inl e \<Rightarrow> (Inl e, w)
      | Inr db \<Rightarrow> save_games X gs (w\<lparr>saved_games := db\<rparr>))"

text \<open>The body of the \<^verbatim>\<open>try\<close> of \<^verbatim>\<open>load\<close>; \<open>None\<close> is a fetch that never ends.\<close>

definition load_games ::
  "externals \<Rightarrow> world \<Rightarrow> ((error + amazon_game list) \<times> world) option" where
  "load_games X w =
     (case get_library X w of
        None \<Rightarrow> None
      | Some (Inl e, w1) \<Rightarrow> Some (Inl e, w1)
      | Some (Inr library, w1) \<Rightarrow>
          (case py_iter library of
             Inl e \<Rightarrow> Some (Inl e, w1)
           | Inr items \<Rightarrow>
               (case map_games X items of
                  Inl e \<Rightarrow> Some (Inl e, w1)
                | Inr games \<Rightarrow>
                    (case save_games X games w1 of
                       (Inl e, w2) \<Rightarrow> Some (Inl e, w2)
                     | (Inr _, w2) \<Rightarrow> Some (Inr games, w2)))))"

text \<open>\<^verbatim>\<open>load\<close>: the bare \<^verbatim>\<open>except\<close> turns every exception of the body into
  \<^verbatim>\<open>games = None\<close>; the result \<open>None\<close> is Python's \<^verbatim>\<open>None\<close>.\<close>

definition load :: "externals \<Rightarrow> world \<Rightarrow> (amazon_game list option \<times> world) option" where
  "load X w =
     (if is_loading w then Some (None, w)
      else if \<not> is_authenticated w then Some (None, w)
      else
        (case load_games X (w\<lparr>is_loading := True\<rparr>) of
           None \<Rightarrow> None
         | Some (Inl e, w1) \<Rightarrow> Some (None, w1\<lparr>is_loading := False\<rparr>)
         | Some (Inr games, w1) \<Rightarrow> Some (Some games, w1\<lparr>is_loading := False\<rparr>)))"

subsection \<open>The PKCE challenge\<close>

definition b64_alphabet :: string where
  "b64_alphabet = ''ABCDEFGHIJKLMNOPQRSTUVWXYZabcdefghijklmnopqrstuvwxyz0123456789+/''"

definition b64_char :: "nat \<Rightarrow> char" where
  "b64_char n = b64_alphabet ! n"

text \<open>\<^verbatim>\<open>base64.b64encode\<close>: three bytes give four characters of the standard alphabet;
  a last group of one or two bytes is filled with zero bits and padded with \<^verbatim>\<open>=\<close>.\<close>

fun b64encode :: "string \<Rightarrow> string" where
  "b64encode [] = []"
| "b64encode [a] =
     (let x = (of_char a :: nat)
      in [b64_char (x div 4), b64_char ((x mod 4) * 16), CHR ''='', CHR ''=''])"
| "b64encode [a, b] =
     (let x = (of_char a :: nat); y = (of_char b :: nat)
      in [b64_char (x div 4), b64_char ((x mod 4) * 16 + y div 16),
          b64_char ((y mod 16) * 4), CHR ''=''])"
| "b64encode (a # b # c # rest) =
     (let x = (of_char a :: nat); y = (of_char b :: nat); z = (of_char c :: nat)
      in [b64_char (x div 4), b64_char ((x mod 4) * 16 + y div 16),
          b64_char ((y mod 16) * 4 + z div 64), b64_char (z mod 64)] @ b64encode rest)"

text \<open>\<^verbatim>\<open>base64.urlsafe_b64encode\<close>: the standard encoding, translated.\<close>

definition url_translate :: "char \<Rightarrow> char" where
  "url_translate c =
     (if c = CHR ''+'' then CHR ''-'' else if c = CHR ''/'' then CHR ''_'' else c)"

definition urlsafe_b64encode :: "string \<Rightarrow> string" where
  "urlsafe_b64encode s = map url_translate (b64encode s)"

text \<open>\<^verbatim>\<open>s.rstrip(b"=")\<close>\<close>

definition rstrip_eq :: "string \<Rightarrow> string" where
  "rstrip_eq s = rev (dropWhile (\<lambda>c. c = CHR ''='') (rev s))"

definition generate_challange :: "externals \<Rightarrow> string \<Rightarrow> string" where
  "generate_challange X code_verifier = rstrip_eq (urlsafe_b64encode (sha256 X code_verifier))"

text \<open>The specification's side of the challenge, "base64url-encoded without padding":
  the encoding with the URL-safe alphabet in which a last group of one or two bytes gives
  two or three characters and nothing else.\<close>

definition base64url_alphabet :: string where
  "base64url_alphabet = ''ABCDEFGHIJKLMNOPQRSTUVWXYZabcdefghijklmnopqrstuvwxyz0123456789-_''"

definition base64url_char :: "nat \<Rightarrow> char" where
  "base64url_char n = base64url_alphabet ! n"

fun base64url_nopad :: "string \<Rightarrow> string" where
  "base64url_nopad [] = []"
| "base64url_nopad [a] =
     (let x = (of_char a :: nat)
      in [base64url_char (x div 4), base64url_char ((x mod 4) * 16)])"
| "base64url_nopad [a, b] =
     (let x = (of_char a :: nat); y = (of_char b :: nat)
      in [base64url_char (x div 4), base64url_char ((x mod 4) * 16 + y div 16),
          base64url_char ((y mod 16) * 4)])"
| "base64url_nopad (a # b # c # rest) =
     (let x = (of_char a :: nat); y = (of_char b :: nat); z = (of_char c :: nat)
      in [base64url_char (x div 4), base64url_char ((x mod 4) * 16 + y div 16),
          base64url_char ((y mod 16) * 4 + z div 64), base64url_char (z mod 64)]
         @ base64url_nopad rest)"

subsection \<open>Concrete environments for the examples\<close>

text \<open>An environment with no files, a clock that always reads 1000 and a network on
  which every request fails.\<close>

definition quiet_world :: world where
  "quiet_world =
     \<lparr>user_file = NoFile, cache_file = NoFile, clock = (\<lambda>k. 1000), ticks = 0,
      net = (\<lambda>k r. TransportError), sent = [], is_loading = False,
      verifier = None, serial = None, client_id = None, events = [], saved_games = []\<rparr>"


text \<open>A stored document without \<^verbatim>\<open>token_obtain_time\<close>, and one in which it is
  \<^verbatim>\<open>null\<close>.\<close>

definition doc_without_time :: json where
  "doc_without_time =
     JObject [(''tokens'', JObject [(''bearer'', JObject [(''expires_in'', JInt 3600)])])]"

definition doc_null_time :: json where
  "doc_null_time =
     JObject [(''token_obtain_time'', JNull),
       (''tokens'', JObject [(''bearer'', JObject [(''expires_in'', JInt 3600)])])]"


text \<open>A stored document whose token, obtained at time 900, lives 3600 seconds.\<close>

definition stored_user :: json where
  "stored_user =
     JObject
       [(''extensions'', JObject [(''device_info'',
           JObject [(''device_serial_number'', JString ''serial'')])]),
        (''tokens'', JObject [(''bearer'',
           JObject [(''access_token'', JString ''tok''),
                    (''refresh_token'', JString ''ref''),
                    (''expires_in'', JInt 3600)])]),
        (''token_obtain_time'', JFloat 900)]"

definition entitlement :: "string \<Rightarrow> string \<Rightarrow> json" where
  "entitlement i t = JObject [(''id'', JString i), (''product'', JObject [(''title'', JString t)])]"

text \<open>Three pages, the first two with a \<^verbatim>\<open>nextToken\<close>, and an empty last page.\<close>

definition page_a :: json where
  "page_a = JObject [(''entitlements'', JArray [entitlement ''1'' ''alpha'', entitlement ''2'' ''beta'']),
                     (''nextToken'', JString ''t1'')]"

definition page_b :: json where
  "page_b = JObject [(''entitlements'', JArray [entitlement ''3'' ''gamma'']),
                     (''nextToken'', JString ''t2'')]"

definition page_c :: json where
  "page_c = JObject [(''entitlements'', JArray [entitlement ''4'' ''delta''])]"

definition page_empty :: json where
  "page_empty = JObject [(''entitlements'', JArray [])]"

text \<open>A remote side that answers the successive requests with the given responses,
  and fails afterwards.\<close>

definition scripted_net :: "response list \<Rightarrow> nat \<Rightarrow> request \<Rightarrow> response" where
  "scripted_net rs k r = (if k < length rs then rs ! k else TransportError)"

definition sync_world :: "response list \<Rightarrow> world" where
  "sync_world rs = quiet_world\<lparr>user_file := Parsed stored_user, net := scripted_net rs\<rparr>"

text \<open>The document that a successful refresh writes back, from the entries of the stored
  document, of its \<^verbatim>\<open>tokens\<close> and of its \<^verbatim>\<open>bearer\<close>.\<close>

definition refreshed :: "(string \<times> json) list \<Rightarrow> (string \<times> json) list \<Rightarrow> (string \<times> json) list
    \<Rightarrow> json \<Rightarrow> json \<Rightarrow> rat \<Rightarrow> json" where
  "refreshed kvs tkvs bkvs atok exp_in now =
     JObject (dict_set
       (dict_set kvs ''tokens''
          (JObject (dict_set tkvs ''bearer''
             (JObject (dict_set (dict_set bkvs ''access_token'' atok) ''expires_in'' exp_in)))))
       ''token_obtain_time'' (JFloat now))"

text \<open>An answer of the token endpoint.\<close>

definition token_response :: json where
  "token_response = JObject [(''access_token'', JString ''tok2''), (''expires_in'', JInt 7200)]"




subsection \<open>Vocabulary of the statements about the fetch\<close>

text \<open>A page is a response object whose \<^verbatim>\<open>entitlements\<close> is an array.\<close>

definition is_page :: "json \<Rightarrow> bool" where
  "is_page p =
     (case py_getitem p ''entitlements'' of Inr (JArray es) \<Rightarrow> True | _ \<Rightarrow> False)"

definition page_items :: "json \<Rightarrow> json list" where
  "page_items p =
     (case py_getitem p ''entitlements'' of Inr (JArray es) \<Rightarrow> es | _ \<Rightarrow> [])"

text \<open>The \<^verbatim>\<open>nextToken\<close> of a page, if it has one.\<close>

definition page_cursor :: "json \<Rightarrow> json option" where
  "page_cursor p = (case py_getitem p ''nextToken'' of Inr t \<Rightarrow> Some t | Inl e \<Rightarrow> None)"

definition cursor_val :: "json \<Rightarrow> json" where
  "cursor_val p = (case page_cursor p of Some t \<Rightarrow> t | None \<Rightarrow> JNull)"

text \<open>The request that the loop issues with access token \<open>tok\<close>, serial \<open>s\<close> and
  continuation token \<open>c\<close>.\<close>

definition page_request :: "externals \<Rightarrow> json \<Rightarrow> string \<Rightarrow> json \<Rightarrow> request" where
  "page_request X tok s c = sds_request entitlements_target tok (sync_request_data X s c)"

text \<open>Stand-ins for the collaborators in the examples: a hash that returns its input,
  \<^verbatim>\<open>str\<close> and \<^verbatim>\<open>slugify\<close> as they are on plain lower-case words, \<^verbatim>\<open>unquote\<close> as it is
  on text without \<^verbatim>\<open>%\<close>, and a database that appends.\<close>

definition plain_externals :: externals where
  "plain_externals =
     \<lparr>sha256 = (\<lambda>bs. bs),
      py_str = (\<lambda>v. case v of JString s \<Rightarrow> s | _ \<Rightarrow> []),
      unquote = (\<lambda>s. s),
      slugify = (\<lambda>v. case v of JString s \<Rightarrow> Inr s | _ \<Rightarrow> Inl ExternalError),
      game_save = (\<lambda>g db. Inr (db @ [g]))\<rparr>"

section \<open>Properties\<close>

subsection \<open>The expiry test\<close>

text \<open>
  C1, as stated, fails: a stored document from which \<^verbatim>\<open>token_obtain_time\<close> is absent
  makes \<^verbatim>\<open>is_token_expired\<close> raise \<^verbatim>\<open>KeyError\<close>; it does not return false.
\<close>

theorem is_token_expired_absent_counterexample:
  "is_token_expired (quiet_world\<lparr>user_file := Parsed doc_without_time\<rparr>)
   = (Inl KeyError, quiet_world\<lparr>user_file := Parsed doc_without_time\<rparr>)"
  by (simp add: is_token_expired_def load_user_data_def quiet_world_def doc_without_time_def)

text \<open>
  C1, amended: for every stored document in which \<^verbatim>\<open>token_obtain_time\<close> and
  \<^verbatim>\<open>tokens.bearer.expires_in\<close> are both present and at least one of them holds a
  false value (\<^verbatim>\<open>null\<close>, \<^verbatim>\<open>false\<close>, zero, an empty string, list or object),
  \<^verbatim>\<open>is_token_expired\<close> returns false, and it changes nothing and does not read the
  clock.
\<close>

theorem is_token_expired_falsy:
  assumes "user_file w = Parsed d"
    and "py_getitem d ''token_obtain_time'' = Inr t"
    and "py_path d [''tokens'', ''bearer'', ''expires_in''] = Inr e"
    and "\<not> truthy t \<or> \<not> truthy e"
  shows "is_token_expired w = (Inr False, w)"
  using assms by (auto simp add: is_token_expired_def load_user_data_def)

theorem is_token_expired_falsy_witness:
  "is_token_expired (quiet_world\<lparr>user_file := Parsed doc_null_time\<rparr>)
   = (Inr False, quiet_world\<lparr>user_file := Parsed doc_null_time\<rparr>)"
  using is_token_expired_falsy
    [of "quiet_world\<lparr>user_file := Parsed doc_null_time\<rparr>" doc_null_time JNull "JInt 3600"]
  by (simp add: doc_null_time_def)




subsection \<open>The PKCE challenge\<close>

lemma b64encode_rfc4648_vectors:
  "b64encode ''f'' = ''Zg==''" "b64encode ''fo'' = ''Zm8=''" "b64encode ''foo'' = ''Zm9v''"
  "b64encode ''foob'' = ''Zm9vYg==''" "b64encode ''fooba'' = ''Zm9vYmE=''"
  "b64encode ''foobar'' = ''Zm9vYmFy''"
  by (simp_all add: b64_char_def b64_alphabet_def)

lemma base64url_nopad_vectors:
  "base64url_nopad ''f'' = ''Zg''" "base64url_nopad ''fo'' = ''Zm8''"
  "base64url_nopad ''foo'' = ''Zm9v''" "base64url_nopad ''foob'' = ''Zm9vYg''"
  by (simp_all add: base64url_char_def base64url_alphabet_def)

lemma alphabets_all:
  "list_all (\<lambda>n. url_translate (b64_char n) = base64url_char n \<and> base64url_char n \<noteq> CHR ''='')
     [0..<64]"
  by code_simp

lemma b64_char_translate: "n < 64 \<Longrightarrow> url_translate (b64_char n) = base64url_char n"
  using alphabets_all by (simp add: list_all_iff)

lemma base64url_char_not_pad: "n < 64 \<Longrightarrow> CHR ''='' \<noteq> base64url_char n"
  using alphabets_all by (auto simp add: list_all_iff)

lemma sextet_bounds:
  "(of_char a :: nat) div 4 < 64"
  "(of_char a :: nat) mod 4 * 16 < 64"
  "(of_char a :: nat) mod 4 * 16 + of_char b div 16 < 64"
  "(of_char b :: nat) mod 16 * 4 < 64"
  "(of_char b :: nat) mod 16 * 4 + of_char c div 64 < 64"
  "(of_char c :: nat) mod 64 < 64"
proof -
  have a: "(of_char a :: nat) < 256" and b: "(of_char b :: nat) < 256"
    and c: "(of_char c :: nat) < 256" by simp_all
  have a4: "(of_char a :: nat) mod 4 < 4" and b16: "(of_char b :: nat) mod 16 < 16" by simp_all
  have bd: "(of_char b :: nat) div 16 < 16" using b by (simp add: less_mult_imp_div_less)
  have cd: "(of_char c :: nat) div 64 < 4" using c by (simp add: less_mult_imp_div_less)
  show "(of_char a :: nat) div 4 < 64" using a by (simp add: less_mult_imp_div_less)
  show "(of_char a :: nat) mod 4 * 16 < 64" using a4 by linarith
  show "(of_char a :: nat) mod 4 * 16 + of_char b div 16 < 64" using a4 bd by linarith
  show "(of_char b :: nat) mod 16 * 4 < 64" using b16 by linarith
  show "(of_char b :: nat) mod 16 * 4 + of_char c div 64 < 64" using b16 cd by linarith
  show "(of_char c :: nat) mod 64 < 64" by simp
qed

lemma url_translate_pad: "url_translate CHR ''='' = CHR ''=''"
  by (simp add: url_translate_def)

text \<open>The URL-safe encoding is the unpadded one followed by its padding.\<close>

lemma urlsafe_padding:
  "\<exists>k. urlsafe_b64encode s = base64url_nopad s @ replicate k CHR ''=''"
proof (induction s rule: b64encode.induct)
  case 1
  then show ?case by (simp add: urlsafe_b64encode_def)
next
  case (2 a)
  have "urlsafe_b64encode [a] = base64url_nopad [a] @ replicate 2 CHR ''=''"
    by (simp add: urlsafe_b64encode_def Let_def b64_char_translate sextet_bounds
          numeral_2_eq_2 url_translate_pad)
  then show ?case by blast
next
  case (3 a b)
  have "urlsafe_b64encode [a, b] = base64url_nopad [a, b] @ replicate 1 CHR ''=''"
    by (simp add: urlsafe_b64encode_def Let_def b64_char_translate sextet_bounds
          url_translate_pad)
  then show ?case by blast
next
  case (4 a b c rest)
  then obtain k where "urlsafe_b64encode rest = base64url_nopad rest @ replicate k CHR ''=''"
    by blast
  then have "urlsafe_b64encode (a # b # c # rest)
      = base64url_nopad (a # b # c # rest) @ replicate k CHR ''=''"
    by (simp add: urlsafe_b64encode_def Let_def b64_char_translate sextet_bounds)
  then show ?case by blast
qed

lemma base64url_nopad_no_pad: "CHR ''='' \<notin> set (base64url_nopad s)"
  by (induction s rule: base64url_nopad.induct)
     (simp_all add: Let_def base64url_char_not_pad sextet_bounds)

lemma rstrip_eq_padding:
  assumes "CHR ''='' \<notin> set xs"
  shows "rstrip_eq (xs @ replicate k CHR ''='') = xs"
proof -
  have "dropWhile (\<lambda>c. c = CHR ''='') (replicate k CHR ''='' @ rev xs) = rev xs"
  proof (induction k)
    case 0
    have "\<forall>c\<in>set (rev xs). \<not> c = CHR ''=''" using assms by auto
    then show ?case by (cases "rev xs") simp_all
  next
    case (Suc k)
    then show ?case by simp
  qed
  then show ?thesis by (simp add: rstrip_eq_def)
qed

text \<open>
  C9: for every verifier, \<^verbatim>\<open>generate_challange\<close> returns the base64url encoding
  without padding of the SHA-256 digest of the verifier. It is a function of the
  verifier (and of the hash) alone, so two calls on one verifier agree; it reads and
  writes no state.
\<close>

theorem generate_challange_base64url:
  "generate_challange X code_verifier = base64url_nopad (sha256 X code_verifier)"
proof -
  obtain k where "urlsafe_b64encode (sha256 X code_verifier)
      = base64url_nopad (sha256 X code_verifier) @ replicate k CHR ''=''"
    using urlsafe_padding by blast
  then show ?thesis
    by (simp add: generate_challange_def rstrip_eq_padding base64url_nopad_no_pad)
qed

subsection \<open>The paginated fetch\<close>

lemma is_page_obj:
  assumes "is_page p"
  obtains kvs es where "p = JObject kvs" "map_of kvs ''entitlements'' = Some (JArray es)"
    "page_items p = es" "truthy p"
proof (cases p)
  case (JObject kvs)
  with assms obtain es where es: "map_of kvs ''entitlements'' = Some (JArray es)"
    by (auto simp add: is_page_def split: option.splits json.splits)
  then have "kvs \<noteq> []" by auto
  with JObject es that show ?thesis
    by (simp add: page_items_def)
qed (use assms in \<open>simp_all add: is_page_def\<close>)

lemma page_cursor_contains:
  "p = JObject kvs \<Longrightarrow> py_contains p ''nextToken'' = Inr (page_cursor p \<noteq> None)"
  by (force simp add: page_cursor_def map_of_eq_None_iff split: option.splits
        dest: map_of_SomeD)

lemma page_cursor_getitem:
  "page_cursor p = Some t \<Longrightarrow> py_getitem p ''nextToken'' = Inr t"
  by (auto simp add: page_cursor_def split: sum.splits)

text \<open>One turn of the loop on a page that is answered.\<close>

lemma fetch_step_last:
  assumes "net w (length (sent w)) (page_request X tok s c) = Body p"
    and "is_page p" and "page_cursor p = None"
  shows "fetch_entitlements X tok (JString s) games c w
     = Some (Inr (Games (games @ page_items p)), w\<lparr>sent := sent w @ [page_request X tok s c]\<rparr>)"
proof -
  obtain kvs es where p: "p = JObject kvs" "map_of kvs ''entitlements'' = Some (JArray es)"
    "page_items p = es" "truthy p"
    using assms(2) by (rule is_page_obj)
  have c: "py_contains p ''nextToken'' = Inr False"
    using page_cursor_contains [OF p(1)] assms(3) by simp
  have r: "request_sds entitlements_target tok (sync_request_data X s c) w
     = (p, w\<lparr>sent := sent w @ [page_request X tok s c]\<rparr>)"
    using assms(1) by (simp add: request_sds_def http_post_def page_request_def)
  have g: "py_getitem p ''entitlements'' = Inr (JArray es)"
    using p by simp
  show ?thesis
    by (subst fetch_entitlements.simps)
       (simp add: get_sync_request_data_def r p(3,4) g c)
qed

lemma fetch_step_more:
  assumes "net w (length (sent w)) (page_request X tok s c) = Body p"
    and "is_page p" and "page_cursor p = Some t"
  shows "fetch_entitlements X tok (JString s) games c w
     = fetch_entitlements X tok (JString s) (games @ page_items p) t
         (w\<lparr>sent := sent w @ [page_request X tok s c]\<rparr>)"
proof -
  obtain kvs es where p: "p = JObject kvs" "map_of kvs ''entitlements'' = Some (JArray es)"
    "page_items p = es" "truthy p"
    using assms(2) by (rule is_page_obj)
  have c: "py_contains p ''nextToken'' = Inr True"
    using page_cursor_contains [OF p(1)] assms(3) by simp
  have r: "request_sds entitlements_target tok (sync_request_data X s c) w
     = (p, w\<lparr>sent := sent w @ [page_request X tok s c]\<rparr>)"
    using assms(1) by (simp add: request_sds_def http_post_def page_request_def)
  have g: "py_getitem p ''entitlements'' = Inr (JArray es)"
    using p by simp
  show ?thesis
    by (subst fetch_entitlements.simps)
       (simp add: get_sync_request_data_def r p(3,4) g c page_cursor_getitem [OF assms(3)])
qed

lemma fetch_step_failed:
  assumes "net w (length (sent w)) (page_request X tok s c) = TransportError"
  shows "fetch_entitlements X tok (JString s) games c w
     = Some (Inr NoData, w\<lparr>sent := sent w @ [page_request X tok s c]\<rparr>)"
proof -
  have r: "request_sds entitlements_target tok (sync_request_data X s c) w
     = (JNull, w\<lparr>sent := sent w @ [page_request X tok s c]\<rparr>)"
    using assms(1) by (simp add: request_sds_def http_post_def page_request_def)
  show ?thesis
    by (subst fetch_entitlements.simps) (simp add: get_sync_request_data_def r)
qed

lemma fetch_run_pages:
  assumes "\<forall>p\<in>set pages. is_page p \<and> page_cursor p \<noteq> None"
    and "\<forall>i<length pages.
           net w (length (sent w) + i) (page_request X tok s ((c # map cursor_val pages) ! i))
             = Body (pages ! i)"
  shows "fetch_entitlements X tok (JString s) games c w
     = fetch_entitlements X tok (JString s) (games @ concat (map page_items pages))
         (last (c # map cursor_val pages))
         (w\<lparr>sent := sent w
               @ map (page_request X tok s) (take (length pages) (c # map cursor_val pages))\<rparr>)"
  using assms
proof (induction pages arbitrary: games c w)
  case Nil
  then show ?case by simp
next
  case (Cons p ps)
  let ?w1 = "w\<lparr>sent := sent w @ [page_request X tok s c]\<rparr>"
  from Cons.prems(1) obtain t where t: "page_cursor p = Some t" and pg: "is_page p"
    by auto
  have cv: "cursor_val p = t"
    using t by (simp add: cursor_val_def)
  have first: "net w (length (sent w)) (page_request X tok s c) = Body p"
    using Cons.prems(2) by fastforce
  have rest: "\<forall>i<length ps.
      net ?w1 (length (sent ?w1) + i) (page_request X tok s ((t # map cursor_val ps) ! i))
        = Body (ps ! i)"
  proof (intro allI impI)
    fix i assume "i < length ps"
    then have "Suc i < length (p # ps)" by simp
    with Cons.prems(2) have "net w (length (sent w) + Suc i)
        (page_request X tok s ((c # map cursor_val (p # ps)) ! Suc i)) = Body ((p # ps) ! Suc i)"
      by blast
    then show "net ?w1 (length (sent ?w1) + i)
        (page_request X tok s ((t # map cursor_val ps) ! i)) = Body (ps ! i)"
      by (simp add: cv)
  qed
  have "fetch_entitlements X tok (JString s) games c w
      = fetch_entitlements X tok (JString s) (games @ page_items p) t ?w1"
    using first pg t by (rule fetch_step_more)
  also have "\<dots> = fetch_entitlements X tok (JString s)
         ((games @ page_items p) @ concat (map page_items ps))
         (last (t # map cursor_val ps))
         (?w1\<lparr>sent := sent ?w1
               @ map (page_request X tok s) (take (length ps) (t # map cursor_val ps))\<rparr>)"
    using Cons.prems(1) rest by (intro Cons.IH) simp_all
  finally show ?case
    by (simp add: cv)
qed

lemma is_token_expired_frame:
  "is_token_expired w = (r, w1) \<Longrightarrow> cache_file w1 = cache_file w \<and> net w1 = net w"
  by (auto simp add: is_token_expired_def time_time_def split: sum.splits if_splits prod.splits)

lemma refresh_token_frame:
  "refresh_token w = (r, w1) \<Longrightarrow> cache_file w1 = cache_file w \<and> net w1 = net w"
  by (auto simp add: refresh_token_def time_time_def http_post_def save_user_data_def
        split: sum.splits prod.splits response.splits)

lemma sync_credentials_frame:
  assumes "sync_credentials w = (r, w1)"
  shows "cache_file w1 = cache_file w \<and> net w1 = net w"
proof -
  obtain e wa where a: "is_token_expired w = (e, wa)" by (cases "is_token_expired w")
  obtain f wb where b: "refresh_token wa = (f, wb)" by (cases "refresh_token wa")
  have "w1 = wa \<or> w1 = wb"
    using assms a b
    by (auto simp add: sync_credentials_def split: sum.splits if_splits prod.splits)
  then show ?thesis
    using is_token_expired_frame [OF a] refresh_token_frame [OF b] by auto
qed

lemma requests_split:
  assumes "length qs = length ps"
  shows "map f (take (length ps) (c # qs)) @ [f (last (c # qs))] = map f (c # qs)"
proof -
  have "take (length ps) (c # qs) = butlast (c # qs)"
    using assms by (simp add: butlast_conv_take)
  then have "map f (take (length ps) (c # qs)) @ [f (last (c # qs))]
      = map f (butlast (c # qs) @ [last (c # qs)])"
    by simp
  also have "\<dots> = map f (c # qs)"
    by (simp only: append_butlast_last_id [of "c # qs"] list.distinct not_False_eq_True)
  finally show ?thesis .
qed

lemma get_library_pages:
  assumes "cache_file w = NoFile"
    and "sync_credentials w = (Inr (tok, JString s), w1)"
    and "pages \<noteq> []"
    and "\<forall>p\<in>set pages. is_page p"
    and "\<forall>i<length pages. (page_cursor (pages ! i) \<noteq> None) = (Suc i < length pages)"
    and "\<forall>i<length pages.
           net w1 (length (sent w1) + i)
             (page_request X tok s ((JNull # map cursor_val pages) ! i)) = Body (pages ! i)"
  shows "get_library X w
     = Some (Inr (JArray (concat (map page_items pages))),
         w1\<lparr>sent := sent w1
               @ map (page_request X tok s) (JNull # map cursor_val (butlast pages)),
            cache_file := Parsed (JArray (concat (map page_items pages)))\<rparr>)"
proof -
  obtain ps p where pages: "pages = ps @ [p]"
    using assms(3) by (metis rev_exhaust)
  let ?cs = "JNull # map cursor_val ps"
  let ?w2 = "w1\<lparr>sent := sent w1 @ map (page_request X tok s) (take (length ps) ?cs)\<rparr>"
  have lastp: "is_page p" "page_cursor p = None"
    using assms(4,5) [unfolded pages] by (auto dest: spec [of _ "length ps"])
  have inner: "\<forall>q\<in>set ps. is_page q \<and> page_cursor q \<noteq> None"
  proof
    fix q assume "q \<in> set ps"
    then obtain i where i: "i < length ps" "ps ! i = q" by (auto simp add: in_set_conv_nth)
    have il: "i < length pages" "Suc i < length pages" "pages ! i = q"
      using i by (simp_all add: pages nth_append)
    have "(page_cursor (pages ! i) \<noteq> None) = (Suc i < length pages)"
      using assms(5) il(1) by blast
    then have "page_cursor q \<noteq> None"
      using il by simp
    moreover have "is_page q"
      using assms(4) \<open>q \<in> set ps\<close> by (simp add: pages)
    ultimately show "is_page q \<and> page_cursor q \<noteq> None" by simp
  qed
  have served: "\<forall>i<length ps. net w1 (length (sent w1) + i)
      (page_request X tok s (?cs ! i)) = Body (ps ! i)"
  proof (intro allI impI)
    fix i assume i: "i < length ps"
    then have "net w1 (length (sent w1) + i)
        (page_request X tok s ((JNull # map cursor_val pages) ! i)) = Body (pages ! i)"
      using assms(6) by (simp add: pages)
    moreover have "(JNull # map cursor_val pages) ! i = ?cs ! i"
      using i by (cases i) (simp_all add: pages nth_append)
    ultimately show "net w1 (length (sent w1) + i)
        (page_request X tok s (?cs ! i)) = Body (ps ! i)"
      using i by (simp add: pages nth_append)
  qed
  have lastc: "(JNull # map cursor_val pages) ! length ps = last ?cs"
    by (cases ps rule: rev_cases) (simp_all add: pages nth_append)
  have served_last: "net ?w2 (length (sent ?w2)) (page_request X tok s (last ?cs)) = Body p"
    using assms(6) [unfolded pages, THEN spec, of "length ps"] lastc
    by (simp add: pages)
  have "fetch_entitlements X tok (JString s) [] JNull w1
      = fetch_entitlements X tok (JString s) ([] @ concat (map page_items ps)) (last ?cs) ?w2"
    using inner served by (rule fetch_run_pages)
  also have "\<dots> = Some (Inr (Games (([] @ concat (map page_items ps)) @ page_items p)),
      ?w2\<lparr>sent := sent ?w2 @ [page_request X tok s (last ?cs)]\<rparr>)"
    using served_last lastp by (rule fetch_step_last)
  finally have run: "fetch_entitlements X tok (JString s) [] JNull w1
      = Some (Inr (Games (concat (map page_items pages))),
          w1\<lparr>sent := sent w1 @ map (page_request X tok s) ?cs\<rparr>)"
    using requests_split [where qs = "map cursor_val ps" and ps = ps
        and f = "page_request X tok s" and c = JNull]
    by (simp add: pages)
  have "path_exists (cache_file w1) = False" "path_exists (cache_file w) = False"
    using sync_credentials_frame [OF assms(2)] assms(1) by (simp_all add: path_exists_def)
  then show ?thesis
    using assms(2) run by (simp add: get_library_def pages)
qed

lemma sync_world_credentials:
  "sync_credentials (sync_world rs)
     = (Inr (JString ''tok'', JString ''serial''), sync_world rs\<lparr>ticks := 1\<rparr>)"
  by (simp add: sync_credentials_def is_token_expired_def load_user_data_def time_time_def
        sync_world_def quiet_world_def stored_user_def)

lemma example_pages:
  "is_page page_a" "is_page page_b" "is_page page_c" "is_page page_empty"
  "page_cursor page_a = Some (JString ''t1'')" "page_cursor page_b = Some (JString ''t2'')"
  "page_cursor page_c = None" "page_cursor page_empty = None"
  "cursor_val page_a = JString ''t1''" "cursor_val page_b = JString ''t2''"
  "page_items page_a = [entitlement ''1'' ''alpha'', entitlement ''2'' ''beta'']"
  "page_items page_b = [entitlement ''3'' ''gamma'']"
  "page_items page_c = [entitlement ''4'' ''delta'']"
  "page_items page_empty = []"
  by (simp_all add: is_page_def page_cursor_def cursor_val_def page_items_def
        page_a_def page_b_def page_c_def page_empty_def)

lemma sync_world_fields:
  "cache_file (sync_world rs) = NoFile" "sent (sync_world rs) = []"
  "net (sync_world rs) = scripted_net rs"
  by (simp_all add: sync_world_def quiet_world_def)

text \<open>
  C2: when the cache file does not exist, the steps before the loop succeed and the
  remote side answers the successive requests with the pages \<open>pages\<close>, each with an
  \<^verbatim>\<open>entitlements\<close> array and all but the last with a \<^verbatim>\<open>nextToken\<close>, then
  \<^verbatim>\<open>get_library\<close> returns the concatenation of the arrays in page order, writes exactly
  that list to the cache file, and has issued one request for each page: the first with
  no token, each further one with the \<^verbatim>\<open>nextToken\<close> of the page before it, and none
  after the page without \<^verbatim>\<open>nextToken\<close>.
\<close>

theorem get_library_accumulates:
  assumes "cache_file w = NoFile"
    and "sync_credentials w = (Inr (tok, JString s), w1)"
    and "pages \<noteq> []"
    and "\<forall>p\<in>set pages. is_page p"
    and "\<forall>i<length pages. (page_cursor (pages ! i) \<noteq> None) = (Suc i < length pages)"
    and "\<forall>i<length pages.
           net w1 (length (sent w1) + i)
             (page_request X tok s ((JNull # map cursor_val pages) ! i)) = Body (pages ! i)"
  shows "get_library X w
     = Some (Inr (JArray (concat (map page_items pages))),
         w1\<lparr>sent := sent w1
               @ map (page_request X tok s) (JNull # map cursor_val (butlast pages)),
            cache_file := Parsed (JArray (concat (map page_items pages)))\<rparr>)"
  using assms by (rule get_library_pages)

theorem get_library_accumulates_witness:
  "get_library plain_externals (sync_world [Body page_a, Body page_b, Body page_c])
     = Some (Inr (JArray [entitlement ''1'' ''alpha'', entitlement ''2'' ''beta'',
                          entitlement ''3'' ''gamma'', entitlement ''4'' ''delta'']),
         sync_world [Body page_a, Body page_b, Body page_c]
           \<lparr>ticks := 1,
            sent := map (page_request plain_externals (JString ''tok'') ''serial'')
                      [JNull, JString ''t1'', JString ''t2''],
            cache_file := Parsed (JArray [entitlement ''1'' ''alpha'', entitlement ''2'' ''beta'',
                          entitlement ''3'' ''gamma'', entitlement ''4'' ''delta''])\<rparr>)"
  using get_library_accumulates
    [of "sync_world [Body page_a, Body page_b, Body page_c]" "JString ''tok''" "''serial''"
        "sync_world [Body page_a, Body page_b, Body page_c]\<lparr>ticks := 1\<rparr>"
        "[page_a, page_b, page_c]" plain_externals]
  by (simp add: sync_world_credentials sync_world_fields example_pages scripted_net_def
        All_less_Suc nth_Cons')


text \<open>
  C3: when the cache file does not exist, the steps before the loop succeed, the remote
  side answers the first requests with pages that each carry a \<^verbatim>\<open>nextToken\<close>, and the
  transport fails on the request after them, then \<^verbatim>\<open>get_library\<close> returns \<^verbatim>\<open>None\<close>,
  the entitlements of the earlier pages are not returned, and the cache file still does
  not exist.
\<close>

theorem get_library_aborts:
  assumes "cache_file w = NoFile"
    and "sync_credentials w = (Inr (tok, JString s), w1)"
    and "\<forall>p\<in>set pages. is_page p \<and> page_cursor p \<noteq> None"
    and "\<forall>i<length pages.
           net w1 (length (sent w1) + i)
             (page_request X tok s ((JNull # map cursor_val pages) ! i)) = Body (pages ! i)"
    and "net w1 (length (sent w1) + length pages)
           (page_request X tok s (last (JNull # map cursor_val pages))) = TransportError"
  shows "get_library X w
       = Some (Inr JNull,
           w1\<lparr>sent := sent w1 @ map (page_request X tok s) (JNull # map cursor_val pages)\<rparr>)
     \<and> cache_file
          (w1\<lparr>sent := sent w1 @ map (page_request X tok s) (JNull # map cursor_val pages)\<rparr>)
       = NoFile"
proof -
  let ?cs = "JNull # map cursor_val pages"
  let ?w2 = "w1\<lparr>sent := sent w1 @ map (page_request X tok s) (take (length pages) ?cs)\<rparr>"
  have failed: "net ?w2 (length (sent ?w2)) (page_request X tok s (last ?cs)) = TransportError"
    using assms(5) by simp
  have "fetch_entitlements X tok (JString s) [] JNull w1
      = fetch_entitlements X tok (JString s) ([] @ concat (map page_items pages)) (last ?cs) ?w2"
    using assms(3,4) by (rule fetch_run_pages)
  also have "\<dots> = Some (Inr NoData,
      ?w2\<lparr>sent := sent ?w2 @ [page_request X tok s (last ?cs)]\<rparr>)"
    using failed by (rule fetch_step_failed)
  finally have run: "fetch_entitlements X tok (JString s) [] JNull w1
      = Some (Inr NoData, w1\<lparr>sent := sent w1 @ map (page_request X tok s) ?cs\<rparr>)"
    using requests_split [where qs = "map cursor_val pages" and ps = pages
        and f = "page_request X tok s" and c = JNull]
    by simp
  have nofile: "cache_file w1 = NoFile"
    using sync_credentials_frame [OF assms(2)] assms(1) by simp
  then show ?thesis
    using assms(1,2) run by (simp add: get_library_def path_exists_def)
qed

theorem get_library_aborts_witness:
  "get_library plain_externals (sync_world [Body page_a, TransportError, Body page_c])
     = Some (Inr JNull,
         sync_world [Body page_a, TransportError, Body page_c]
           \<lparr>ticks := 1,
            sent := map (page_request plain_externals (JString ''tok'') ''serial'')
                      [JNull, JString ''t1'']\<rparr>)
   \<and> cache_file
        (sync_world [Body page_a, TransportError, Body page_c]
           \<lparr>ticks := 1,
            sent := map (page_request plain_externals (JString ''tok'') ''serial'')
                      [JNull, JString ''t1'']\<rparr>) = NoFile"
  using get_library_aborts
    [of "sync_world [Body page_a, TransportError, Body page_c]" "JString ''tok''" "''serial''"
        "sync_world [Body page_a, TransportError, Body page_c]\<lparr>ticks := 1\<rparr>"
        "[page_a]" plain_externals]
  by (simp add: sync_world_credentials sync_world_fields example_pages scripted_net_def)

text \<open>
  C4: when the cache file holds a document, \<^verbatim>\<open>get_library\<close> returns that document and
  leaves the whole environment as it was: no request is issued, the clock is not read,
  the stored credentials are neither read nor written, whatever they are.
\<close>

theorem get_library_cached:
  assumes "cache_file w = Parsed library"
  shows "get_library X w = Some (Inr library, w)"
  using assms by (simp add: get_library_def path_exists_def)

theorem get_library_cached_witness:
  "get_library plain_externals
     (quiet_world\<lparr>cache_file := Parsed (JArray [entitlement ''1'' ''alpha''])\<rparr>)
   = Some (Inr (JArray [entitlement ''1'' ''alpha'']),
       quiet_world\<lparr>cache_file := Parsed (JArray [entitlement ''1'' ''alpha''])\<rparr>)"
  using get_library_cached
    [of "quiet_world\<lparr>cache_file := Parsed (JArray [entitlement ''1'' ''alpha''])\<rparr>"
        "JArray [entitlement ''1'' ''alpha'']" plain_externals]
  by simp

text \<open>
  C10: when the cache file does not exist and every page of a successful fetch has an
  empty \<^verbatim>\<open>entitlements\<close> array, \<^verbatim>\<open>get_library\<close> writes the empty array to the cache file
  and returns the empty list; and in every environment whose cache file holds the empty
  array, \<^verbatim>\<open>get_library\<close> returns the empty list and leaves the environment as it was,
  so without any request.
\<close>

theorem get_library_empty_cached:
  assumes "cache_file w = NoFile"
    and "sync_credentials w = (Inr (tok, JString s), w1)"
    and "pages \<noteq> []"
    and "\<forall>p\<in>set pages. is_page p \<and> page_items p = []"
    and "\<forall>i<length pages. (page_cursor (pages ! i) \<noteq> None) = (Suc i < length pages)"
    and "\<forall>i<length pages.
           net w1 (length (sent w1) + i)
             (page_request X tok s ((JNull # map cursor_val pages) ! i)) = Body (pages ! i)"
  shows "get_library X w
       = Some (Inr (JArray []),
           w1\<lparr>sent := sent w1
                 @ map (page_request X tok s) (JNull # map cursor_val (butlast pages)),
              cache_file := Parsed (JArray [])\<rparr>)
     \<and> (\<forall>w'. cache_file w' = Parsed (JArray [])
            \<longrightarrow> get_library X w' = Some (Inr (JArray []), w'))"
proof -
  have pg: "\<forall>p\<in>set pages. is_page p"
    using assms(4) by simp
  have "concat (map page_items pages) = []"
    using assms(4) by simp
  then have "get_library X w
       = Some (Inr (JArray []),
           w1\<lparr>sent := sent w1
                 @ map (page_request X tok s) (JNull # map cursor_val (butlast pages)),
              cache_file := Parsed (JArray [])\<rparr>)"
    using get_library_pages [OF assms(1,2,3) pg assms(5,6)] by simp
  moreover have "\<forall>w'. cache_file w' = Parsed (JArray [])
            \<longrightarrow> get_library X w' = Some (Inr (JArray []), w')"
    by (simp add: get_library_def path_exists_def)
  ultimately show ?thesis by simp
qed

theorem get_library_empty_cached_witness:
  "get_library plain_externals (sync_world [Body page_empty])
     = Some (Inr (JArray []),
         sync_world [Body page_empty]
           \<lparr>ticks := 1,
            sent := [page_request plain_externals (JString ''tok'') ''serial'' JNull],
            cache_file := Parsed (JArray [])\<rparr>)
   \<and> get_library plain_externals
       (sync_world [Body page_empty]
           \<lparr>ticks := 1,
            sent := [page_request plain_externals (JString ''tok'') ''serial'' JNull],
            cache_file := Parsed (JArray [])\<rparr>)
     = Some (Inr (JArray []),
         sync_world [Body page_empty]
           \<lparr>ticks := 1,
            sent := [page_request plain_externals (JString ''tok'') ''serial'' JNull],
            cache_file := Parsed (JArray [])\<rparr>)"
  using get_library_empty_cached
    [of "sync_world [Body page_empty]" "JString ''tok''" "''serial''"
        "sync_world [Body page_empty]\<lparr>ticks := 1\<rparr>" "[page_empty]" plain_externals]
  by (simp add: sync_world_credentials sync_world_fields example_pages scripted_net_def)

subsection \<open>The token refresh\<close>

lemma map_of_dict_set:
  "map_of (dict_set kvs k v) k' = (if k' = k then Some v else map_of kvs k')"
  by (induction kvs k v rule: dict_set.induct) auto

lemma dict_set_twice: "dict_set (dict_set kvs k v) k v' = dict_set kvs k v'"
  by (induction kvs k v rule: dict_set.induct) auto

lemma py_getitem_dict_set:
  "py_getitem (JObject (dict_set kvs k v)) k'
     = (if k' = k then Inr v else py_getitem (JObject kvs) k')"
  by (simp add: map_of_dict_set)

lemma py_path3_obj:
  assumes "py_path d [a, b, c] = Inr x"
  obtains kvs akvs bkvs where "d = JObject kvs" "map_of kvs a = Some (JObject akvs)"
    "map_of akvs b = Some (JObject bkvs)" "map_of bkvs c = Some x"
proof -
  from assms obtain kvs where d: "d = JObject kvs"
    by (cases d) auto
  with assms obtain av where av: "map_of kvs a = Some av" "py_path av [b, c] = Inr x"
    by (auto split: option.splits)
  then obtain akvs where a: "av = JObject akvs"
    by (cases av) auto
  with av obtain bv where bv: "map_of akvs b = Some bv" "py_path bv [c] = Inr x"
    by (auto split: option.splits)
  then obtain bkvs where b: "bv = JObject bkvs"
    by (cases bv) auto
  with bv have "map_of bkvs c = Some x"
    by (auto split: option.splits)
  with d av a bv b that show ?thesis by blast
qed

lemma refresh_token_success:
  assumes "user_file w = Parsed (JObject kvs)"
    and "map_of kvs ''tokens'' = Some (JObject tkvs)"
    and "map_of tkvs ''bearer'' = Some (JObject bkvs)"
    and "map_of bkvs ''refresh_token'' = Some rt"
    and "net w (length (sent w)) (refresh_request rt) = Body res"
    and "py_getitem res ''access_token'' = Inr atok"
    and "py_getitem res ''expires_in'' = Inr exp_in"
  shows "refresh_token w
     = (Inr (), w\<lparr>sent := sent w @ [refresh_request rt], ticks := Suc (ticks w),
                  user_file := Parsed (refreshed kvs tkvs bkvs atok exp_in (clock w (ticks w)))\<rparr>)"
  using assms
  by (simp add: refresh_token_def load_user_data_def http_post_def time_time_def
        save_user_data_def map_of_dict_set dict_set_twice refreshed_def)

lemma refresh_token_failure:
  assumes "user_file w = Parsed d"
    and "py_path d [''tokens'', ''bearer'', ''refresh_token''] = Inr rt"
    and "net w (length (sent w)) (refresh_request rt) = TransportError"
  shows "refresh_token w = (Inr (), w\<lparr>sent := sent w @ [refresh_request rt]\<rparr>)"
  using assms
  by (simp add: refresh_token_def load_user_data_def http_post_def)

lemma refreshed_fields:
  assumes "map_of kvs ''tokens'' = Some (JObject tkvs)"
    and "map_of tkvs ''bearer'' = Some (JObject bkvs)"
  shows "py_path (refreshed kvs tkvs bkvs atok exp_in now) [''tokens'', ''bearer'', ''access_token''] = Inr atok"
    and "py_path (refreshed kvs tkvs bkvs atok exp_in now) [''tokens'', ''bearer'', ''expires_in''] = Inr exp_in"
    and "py_getitem (refreshed kvs tkvs bkvs atok exp_in now) ''token_obtain_time'' = Inr (JFloat now)"
    and "k \<noteq> ''tokens'' \<Longrightarrow> k \<noteq> ''token_obtain_time'' \<Longrightarrow>
           py_getitem (refreshed kvs tkvs bkvs atok exp_in now) k = py_getitem (JObject kvs) k"
    and "k \<noteq> ''bearer'' \<Longrightarrow>
           py_path (refreshed kvs tkvs bkvs atok exp_in now) [''tokens'', k]
             = py_path (JObject kvs) [''tokens'', k]"
    and "k \<noteq> ''access_token'' \<Longrightarrow> k \<noteq> ''expires_in'' \<Longrightarrow>
           py_path (refreshed kvs tkvs bkvs atok exp_in now) [''tokens'', ''bearer'', k]
             = py_path (JObject kvs) [''tokens'', ''bearer'', k]"
  using assms by (simp_all add: refreshed_def map_of_dict_set)


text \<open>
  C6: for every stored document that holds \<^verbatim>\<open>tokens.bearer.refresh_token\<close>: when the
  transport fails, \<^verbatim>\<open>refresh_token\<close> returns without an error and only the log of
  requests has changed, so the stored document is untouched; when the token endpoint
  answers with an \<^verbatim>\<open>access_token\<close> and an \<^verbatim>\<open>expires_in\<close>, the document written back has
  these two values, has \<^verbatim>\<open>token_obtain_time\<close> set to the time read, has the same
  \<^verbatim>\<open>refresh_token\<close>, and agrees with the old document on every other top-level key, on
  every other key of \<^verbatim>\<open>tokens\<close> and on every other key of \<^verbatim>\<open>tokens.bearer\<close>.
\<close>

theorem refresh_token_effect:
  assumes "user_file w = Parsed d"
    and "py_path d [''tokens'', ''bearer'', ''refresh_token''] = Inr rt"
  shows "(net w (length (sent w)) (refresh_request rt) = TransportError \<longrightarrow>
            refresh_token w = (Inr (), w\<lparr>sent := sent w @ [refresh_request rt]\<rparr>))
     \<and> (\<forall>res atok exp_in.
           net w (length (sent w)) (refresh_request rt) = Body res
           \<and> py_getitem res ''access_token'' = Inr atok
           \<and> py_getitem res ''expires_in'' = Inr exp_in \<longrightarrow>
           (\<exists>d'. refresh_token w
                   = (Inr (), w\<lparr>sent := sent w @ [refresh_request rt], ticks := Suc (ticks w),
                                user_file := Parsed d'\<rparr>)
              \<and> py_path d' [''tokens'', ''bearer'', ''access_token''] = Inr atok
              \<and> py_path d' [''tokens'', ''bearer'', ''expires_in''] = Inr exp_in
              \<and> py_getitem d' ''token_obtain_time'' = Inr (JFloat (clock w (ticks w)))
              \<and> py_path d' [''tokens'', ''bearer'', ''refresh_token''] = Inr rt
              \<and> (\<forall>k. k \<noteq> ''tokens'' \<and> k \<noteq> ''token_obtain_time'' \<longrightarrow>
                     py_getitem d' k = py_getitem d k)
              \<and> (\<forall>k. k \<noteq> ''bearer'' \<longrightarrow>
                     py_path d' [''tokens'', k] = py_path d [''tokens'', k])
              \<and> (\<forall>k. k \<noteq> ''access_token'' \<and> k \<noteq> ''expires_in'' \<longrightarrow>
                     py_path d' [''tokens'', ''bearer'', k]
                       = py_path d [''tokens'', ''bearer'', k])))"
proof (intro conjI impI allI)
  assume "net w (length (sent w)) (refresh_request rt) = TransportError"
  with assms show "refresh_token w = (Inr (), w\<lparr>sent := sent w @ [refresh_request rt]\<rparr>)"
    by (rule refresh_token_failure)
next
  fix res atok exp_in
  assume ok: "net w (length (sent w)) (refresh_request rt) = Body res
           \<and> py_getitem res ''access_token'' = Inr atok
           \<and> py_getitem res ''expires_in'' = Inr exp_in"
  obtain kvs tkvs bkvs where d: "d = JObject kvs"
    and t: "map_of kvs ''tokens'' = Some (JObject tkvs)"
    and b: "map_of tkvs ''bearer'' = Some (JObject bkvs)"
    and r: "map_of bkvs ''refresh_token'' = Some rt"
    using assms(2) by (rule py_path3_obj)
  let ?d = "refreshed kvs tkvs bkvs atok exp_in (clock w (ticks w))"
  have run: "refresh_token w
      = (Inr (), w\<lparr>sent := sent w @ [refresh_request rt], ticks := Suc (ticks w),
                   user_file := Parsed ?d\<rparr>)"
    using assms(1) [unfolded d] t b r ok [THEN conjunct1] ok [THEN conjunct2, THEN conjunct1]
      ok [THEN conjunct2, THEN conjunct2]
    by (rule refresh_token_success)
  have same: "py_path ?d [''tokens'', ''bearer'', ''refresh_token''] = Inr rt"
    using refreshed_fields(6) [OF t b, of "''refresh_token''" atok exp_in "clock w (ticks w)"]
      t b r by simp
  show "\<exists>d'. refresh_token w
                   = (Inr (), w\<lparr>sent := sent w @ [refresh_request rt], ticks := Suc (ticks w),
                                user_file := Parsed d'\<rparr>)
              \<and> py_path d' [''tokens'', ''bearer'', ''access_token''] = Inr atok
              \<and> py_path d' [''tokens'', ''bearer'', ''expires_in''] = Inr exp_in
              \<and> py_getitem d' ''token_obtain_time'' = Inr (JFloat (clock w (ticks w)))
              \<and> py_path d' [''tokens'', ''bearer'', ''refresh_token''] = Inr rt
              \<and> (\<forall>k. k \<noteq> ''tokens'' \<and> k \<noteq> ''token_obtain_time'' \<longrightarrow>
                     py_getitem d' k = py_getitem d k)
              \<and> (\<forall>k. k \<noteq> ''bearer'' \<longrightarrow>
                     py_path d' [''tokens'', k] = py_path d [''tokens'', k])
              \<and> (\<forall>k. k \<noteq> ''access_token'' \<and> k \<noteq> ''expires_in'' \<longrightarrow>
                     py_path d' [''tokens'', ''bearer'', k]
                       = py_path d [''tokens'', ''bearer'', k])"
  proof (intro exI [of _ ?d] conjI allI impI)
    show "refresh_token w
      = (Inr (), w\<lparr>sent := sent w @ [refresh_request rt], ticks := Suc (ticks w),
                   user_file := Parsed ?d\<rparr>)" by (rule run)
    show "py_path ?d [''tokens'', ''bearer'', ''access_token''] = Inr atok"
      by (rule refreshed_fields(1) [OF t b])
    show "py_path ?d [''tokens'', ''bearer'', ''expires_in''] = Inr exp_in"
      by (rule refreshed_fields(2) [OF t b])
    show "py_getitem ?d ''token_obtain_time'' = Inr (JFloat (clock w (ticks w)))"
      by (rule refreshed_fields(3) [OF t b])
    show "py_path ?d [''tokens'', ''bearer'', ''refresh_token''] = Inr rt" by (rule same)
  next
    fix k assume "k \<noteq> ''tokens'' \<and> k \<noteq> ''token_obtain_time''"
    then show "py_getitem ?d k = py_getitem d k"
      using refreshed_fields(4) [OF t b] d by simp
  next
    fix k assume "k \<noteq> ''bearer''"
    then show "py_path ?d [''tokens'', k] = py_path d [''tokens'', k]"
      using refreshed_fields(5) [OF t b] d by simp
  next
    fix k assume "k \<noteq> ''access_token'' \<and> k \<noteq> ''expires_in''"
    then show "py_path ?d [''tokens'', ''bearer'', k] = py_path d [''tokens'', ''bearer'', k]"
      using refreshed_fields(6) [OF t b] d by simp
  qed
qed

lemma stored_user_refresh:
  "py_path stored_user [''tokens'', ''bearer'', ''refresh_token''] = Inr (JString ''ref'')"
  by (simp add: stored_user_def)

lemma sync_world_state:
  "user_file (sync_world rs) = Parsed stored_user" "ticks (sync_world rs) = 0"
  "clock (sync_world rs) = (\<lambda>k. 1000)"
  by (simp_all add: sync_world_def quiet_world_def)

theorem refresh_token_effect_witness:
  "refresh_token (sync_world [])
     = (Inr (), sync_world []\<lparr>sent := [refresh_request (JString ''ref'')]\<rparr>)
   \<and> (\<exists>d'. refresh_token (sync_world [Body token_response])
              = (Inr (), sync_world [Body token_response]
                   \<lparr>sent := [refresh_request (JString ''ref'')], ticks := 1,
                    user_file := Parsed d'\<rparr>)
          \<and> py_path d' [''tokens'', ''bearer'', ''access_token''] = Inr (JString ''tok2'')
          \<and> py_path d' [''tokens'', ''bearer'', ''expires_in''] = Inr (JInt 7200)
          \<and> py_getitem d' ''token_obtain_time'' = Inr (JFloat 1000)
          \<and> py_path d' [''tokens'', ''bearer'', ''refresh_token''] = Inr (JString ''ref'')
          \<and> py_getitem d' ''extensions'' = py_getitem stored_user ''extensions'')"
proof -
  let ?w = "sync_world [Body token_response]"
  have fails: "net (sync_world []) (length (sent (sync_world [])))
      (refresh_request (JString ''ref'')) = TransportError"
    by (simp add: sync_world_fields scripted_net_def)
  have first: "refresh_token (sync_world [])
     = (Inr (), sync_world []\<lparr>sent := [refresh_request (JString ''ref'')]\<rparr>)"
    using refresh_token_effect [OF sync_world_state(1) stored_user_refresh, of "[]",
        THEN conjunct1, rule_format, OF fails]
    by (simp add: sync_world_fields)
  have answers: "net ?w (length (sent ?w)) (refresh_request (JString ''ref'')) = Body token_response
      \<and> py_getitem token_response ''access_token'' = Inr (JString ''tok2'')
      \<and> py_getitem token_response ''expires_in'' = Inr (JInt 7200)"
    by (simp add: sync_world_fields scripted_net_def token_response_def)
  have k: "''extensions'' \<noteq> ''tokens'' \<and> ''extensions'' \<noteq> ''token_obtain_time''"
    by simp
  note ex = refresh_token_effect [OF sync_world_state(1) stored_user_refresh,
      of "[Body token_response]", THEN conjunct2, THEN spec, THEN spec, THEN spec, THEN mp,
      OF answers]
  have second: "\<exists>d'. refresh_token (sync_world [Body token_response])
              = (Inr (), sync_world [Body token_response]
                   \<lparr>sent := [refresh_request (JString ''ref'')], ticks := 1,
                    user_file := Parsed d'\<rparr>)
          \<and> py_path d' [''tokens'', ''bearer'', ''access_token''] = Inr (JString ''tok2'')
          \<and> py_path d' [''tokens'', ''bearer'', ''expires_in''] = Inr (JInt 7200)
          \<and> py_getitem d' ''token_obtain_time'' = Inr (JFloat 1000)
          \<and> py_path d' [''tokens'', ''bearer'', ''refresh_token''] = Inr (JString ''ref'')
          \<and> py_getitem d' ''extensions'' = py_getitem stored_user ''extensions''"
    using ex
  proof (elim exE conjE)
    fix d'
    assume run: "refresh_token ?w
        = (Inr (), ?w\<lparr>sent := sent ?w @ [refresh_request (JString ''ref'')],
                      ticks := Suc (ticks ?w), user_file := Parsed d'\<rparr>)"
      and tm: "py_getitem d' ''token_obtain_time'' = Inr (JFloat (clock ?w (ticks ?w)))"
      and frame: "\<forall>k. k \<noteq> ''tokens'' \<and> k \<noteq> ''token_obtain_time'' \<longrightarrow>
          py_getitem d' k = py_getitem stored_user k"
      and rest: "py_path d' [''tokens'', ''bearer'', ''access_token''] = Inr (JString ''tok2'')"
        "py_path d' [''tokens'', ''bearer'', ''expires_in''] = Inr (JInt 7200)"
        "py_path d' [''tokens'', ''bearer'', ''refresh_token''] = Inr (JString ''ref'')"
    have ext: "py_getitem d' ''extensions'' = py_getitem stored_user ''extensions''"
      using frame [THEN spec, of "''extensions''"] by simp
    have run': "refresh_token ?w
        = (Inr (), ?w\<lparr>sent := [refresh_request (JString ''ref'')],
                      ticks := 1, user_file := Parsed d'\<rparr>)"
      using run by (simp add: sync_world_fields sync_world_state)
    have tm': "py_getitem d' ''token_obtain_time'' = Inr (JFloat 1000)"
      using tm by (simp add: sync_world_state)
    show ?thesis
      by (rule exI [of _ d']) (intro conjI run' rest tm' ext)
  qed
  show ?thesis
    by (rule conjI [OF first second])
qed

subsection \<open>The login callback\<close>







subsection \<open>Loading the library\<close>

text \<open>
  C7: called while \<^verbatim>\<open>is_loading\<close> is set, \<^verbatim>\<open>load\<close> returns \<^verbatim>\<open>None\<close> and leaves the
  environment as it was (no request, no game saved); every call that finds the flag
  clear and returns leaves the flag clear; and when the fetch, the mapping or the saving
  raises, \<^verbatim>\<open>load\<close> returns \<^verbatim>\<open>None\<close> with the flag cleared.
\<close>

theorem load_guard:
  "(is_loading w \<longrightarrow> load X w = Some (None, w))
   \<and> (\<forall>r w'. \<not> is_loading w \<and> load X w = Some (r, w') \<longrightarrow> \<not> is_loading w')
   \<and> (\<forall>e w1. \<not> is_loading w \<and> is_authenticated w
         \<and> load_games X (w\<lparr>is_loading := True\<rparr>) = Some (Inl e, w1) \<longrightarrow>
         load X w = Some (None, w1\<lparr>is_loading := False\<rparr>))"
  by (auto simp add: load_def split: option.splits sum.splits if_splits prod.splits)


lemma loading_world_credentials:
  "sync_credentials (sync_world rs\<lparr>is_loading := True\<rparr>)
     = (Inr (JString ''tok'', JString ''serial''), sync_world rs\<lparr>is_loading := True, ticks := 1\<rparr>)"
  by (simp add: sync_credentials_def is_token_expired_def load_user_data_def time_time_def
        sync_world_def quiet_world_def stored_user_def)

lemma loading_world_failed:
  "get_library plain_externals (sync_world []\<lparr>is_loading := True\<rparr>)
     = Some (Inr JNull, sync_world []\<lparr>is_loading := True, ticks := 1,
          sent := [page_request plain_externals (JString ''tok'') ''serial'' JNull]\<rparr>)"
proof -
  let ?w1 = "sync_world []\<lparr>is_loading := True, ticks := 1\<rparr>"
  have "net ?w1 (length (sent ?w1)) (page_request plain_externals (JString ''tok'') ''serial'' JNull)
      = TransportError"
    by (simp add: sync_world_fields scripted_net_def)
  then have "fetch_entitlements plain_externals (JString ''tok'') (JString ''serial'') [] JNull ?w1
      = Some (Inr NoData,
          ?w1\<lparr>sent := sent ?w1 @ [page_request plain_externals (JString ''tok'') ''serial'' JNull]\<rparr>)"
    by (rule fetch_step_failed)
  then show ?thesis
    by (simp add: get_library_def path_exists_def loading_world_credentials sync_world_fields)
qed

lemma loading_world_page:
  "get_library plain_externals (sync_world [Body page_c]\<lparr>is_loading := True\<rparr>)
     = Some (Inr (JArray [entitlement ''4'' ''delta'']),
         sync_world [Body page_c]\<lparr>is_loading := True, ticks := 1,
          sent := [page_request plain_externals (JString ''tok'') ''serial'' JNull],
          cache_file := Parsed (JArray [entitlement ''4'' ''delta''])\<rparr>)"
proof -
  let ?w1 = "sync_world [Body page_c]\<lparr>is_loading := True, ticks := 1\<rparr>"
  have "net ?w1 (length (sent ?w1)) (page_request plain_externals (JString ''tok'') ''serial'' JNull)
      = Body page_c"
    by (simp add: sync_world_fields scripted_net_def)
  then have "fetch_entitlements plain_externals (JString ''tok'') (JString ''serial'') [] JNull ?w1
      = Some (Inr (Games ([] @ page_items page_c)),
          ?w1\<lparr>sent := sent ?w1 @ [page_request plain_externals (JString ''tok'') ''serial'' JNull]\<rparr>)"
    using example_pages(3,7) by (rule fetch_step_last)
  then show ?thesis
    by (simp add: get_library_def path_exists_def loading_world_credentials sync_world_fields
          example_pages)
qed

theorem load_guard_witness:
  "load plain_externals (quiet_world\<lparr>is_loading := True\<rparr>)
     = Some (None, quiet_world\<lparr>is_loading := True\<rparr>)
   \<and> load plain_externals (sync_world [])
     = Some (None, sync_world []\<lparr>ticks := 1,
          sent := [page_request plain_externals (JString ''tok'') ''serial'' JNull]\<rparr>)
   \<and> \<not> is_loading (sync_world []\<lparr>ticks := 1,
          sent := [page_request plain_externals (JString ''tok'') ''serial'' JNull]\<rparr>)
   \<and> load plain_externals (sync_world [Body page_c])
     = Some (Some [\<lparr>appid = ''4'', slug = ''delta'', name = JString ''delta'',
                    details = entitlement ''4'' ''delta''\<rparr>],
         sync_world [Body page_c]\<lparr>ticks := 1,
          sent := [page_request plain_externals (JString ''tok'') ''serial'' JNull],
          cache_file := Parsed (JArray [entitlement ''4'' ''delta'']),
          saved_games := [\<lparr>appid = ''4'', slug = ''delta'', name = JString ''delta'',
                    details = entitlement ''4'' ''delta''\<rparr>]\<rparr>)
   \<and> \<not> is_loading (sync_world [Body page_c]\<lparr>ticks := 1,
          sent := [page_request plain_externals (JString ''tok'') ''serial'' JNull],
          cache_file := Parsed (JArray [entitlement ''4'' ''delta'']),
          saved_games := [\<lparr>appid = ''4'', slug = ''delta'', name = JString ''delta'',
                    details = entitlement ''4'' ''delta''\<rparr>]\<rparr>)"
proof -
  have idle: "\<not> is_loading (sync_world rs)" "is_authenticated (sync_world rs)" for rs
    by (simp_all add: sync_world_def quiet_world_def is_authenticated_def path_exists_def)
  have one: "load plain_externals (quiet_world\<lparr>is_loading := True\<rparr>)
     = Some (None, quiet_world\<lparr>is_loading := True\<rparr>)"
    using load_guard [of "quiet_world\<lparr>is_loading := True\<rparr>" plain_externals,
        THEN conjunct1]
    by simp
  have raised: "\<not> is_loading (sync_world []) \<and> is_authenticated (sync_world [])
      \<and> load_games plain_externals (sync_world []\<lparr>is_loading := True\<rparr>)
        = Some (Inl TypeError, sync_world []\<lparr>is_loading := True, ticks := 1,
            sent := [page_request plain_externals (JString ''tok'') ''serial'' JNull]\<rparr>)"
    by (simp add: idle load_games_def loading_world_failed)
  have two: "load plain_externals (sync_world [])
     = Some (None, sync_world []\<lparr>ticks := 1,
          sent := [page_request plain_externals (JString ''tok'') ''serial'' JNull]\<rparr>)"
    using load_guard [of "sync_world []" plain_externals,
        THEN conjunct2, THEN conjunct2, THEN spec, THEN spec, THEN mp, OF raised]
    by (simp add: sync_world_def quiet_world_def)
  have three: "\<not> is_loading (sync_world []\<lparr>ticks := 1,
          sent := [page_request plain_externals (JString ''tok'') ''serial'' JNull]\<rparr>)"
    using load_guard [of "sync_world []" plain_externals,
        THEN conjunct2, THEN conjunct1, THEN spec, THEN spec, THEN mp,
        OF conjI [OF idle(1) two]] .
  have four: "load plain_externals (sync_world [Body page_c])
     = Some (Some [\<lparr>appid = ''4'', slug = ''delta'', name = JString ''delta'',
                    details = entitlement ''4'' ''delta''\<rparr>],
         sync_world [Body page_c]\<lparr>ticks := 1,
          sent := [page_request plain_externals (JString ''tok'') ''serial'' JNull],
          cache_file := Parsed (JArray [entitlement ''4'' ''delta'']),
          saved_games := [\<lparr>appid = ''4'', slug = ''delta'', name = JString ''delta'',
                    details = entitlement ''4'' ''delta''\<rparr>]\<rparr>)"
  proof -
    have mapped: "new_from_amazon_game plain_externals (entitlement ''4'' ''delta'')
        = Inr \<lparr>appid = ''4'', slug = ''delta'', name = JString ''delta'',
                 details = entitlement ''4'' ''delta''\<rparr>"
      by (simp add: new_from_amazon_game_def entitlement_def plain_externals_def)
    have saving: "game_save plain_externals g db = Inr (db @ [g])" for g db
      by (simp add: plain_externals_def)
    have empty_db: "saved_games (sync_world [Body page_c]) = []"
      by (simp add: sync_world_def quiet_world_def)
    have lg: "load_games plain_externals (sync_world [Body page_c]\<lparr>is_loading := True\<rparr>)
        = Some (Inr [\<lparr>appid = ''4'', slug = ''delta'', name = JString ''delta'',
                 details = entitlement ''4'' ''delta''\<rparr>],
            sync_world [Body page_c]\<lparr>is_loading := True, ticks := 1,
              sent := [page_request plain_externals (JString ''tok'') ''serial'' JNull],
              cache_file := Parsed (JArray [entitlement ''4'' ''delta'']),
              saved_games := [\<lparr>appid = ''4'', slug = ''delta'', name = JString ''delta'',
                    details = entitlement ''4'' ''delta''\<rparr>]\<rparr>)"
      by (simp add: load_games_def loading_world_page mapped saving empty_db)
    show ?thesis
      by (simp add: load_def idle lg)
  qed
  have five: "\<not> is_loading (sync_world [Body page_c]\<lparr>ticks := 1,
          sent := [page_request plain_externals (JString ''tok'') ''serial'' JNull],
          cache_file := Parsed (JArray [entitlement ''4'' ''delta'']),
          saved_games := [\<lparr>appid = ''4'', slug = ''delta'', name = JString ''delta'',
                    details = entitlement ''4'' ''delta''\<rparr>]\<rparr>)"
    using load_guard [of "sync_world [Body page_c]" plain_externals,
        THEN conjunct2, THEN conjunct1, THEN spec, THEN spec, THEN mp,
        OF conjI [OF idle(1) four]] .
  show ?thesis
    by (intro conjI one two three four five)
qed

end
